theory Spec2Isabelle
  imports Main "HOL-Library.AList" "HOL-Library.Char_ord" "HOL-Library.List_Lexorder"
begin

section \<open>Python values and strings\<close>

text \<open>
  A Python \<open>str\<close> is a sequence of Unicode code points. The model has the strings of
  code points below 256 (ASCII and Latin-1), as lists of 8-bit characters, compared
  lexicographically by code point as Python compares them. On these strings
  \<open>str.lower\<close> and \<open>str.isdigit\<close> are the functions below: \<open>lower\<close> maps \<open>A-Z\<close> and the
  Latin-1 capitals \<open>U+00C0-U+00DE\<close> (the multiplication sign \<open>U+00D7\<close> apart) to the
  letter 32 places on and leaves every other character alone; \<open>isdigit\<close> accepts
  \<open>0-9\<close> and the superscript digits \<open>U+00B2\<close>, \<open>U+00B3\<close>, \<open>U+00B9\<close>.
\<close>

definition lower_char :: "char \<Rightarrow> char" where
  "lower_char c =
     (if (CHR ''A'' \<le> c \<and> c \<le> CHR ''Z'') \<or> (CHR 0xC0 \<le> c \<and> c \<le> CHR 0xDE \<and> c \<noteq> CHR 0xD7)
      then char_of (of_char c + (32::nat)) else c)"

definition lower :: "string \<Rightarrow> string" where
  "lower s = map lower_char s"

definition digit_char :: "char \<Rightarrow> bool" where
  "digit_char c =
     ((CHR ''0'' \<le> c \<and> c \<le> CHR ''9'') \<or> c = CHR 0xB2 \<or> c = CHR 0xB3 \<or> c = CHR 0xB9)"

definition isdigit :: "string \<Rightarrow> bool" where
  "isdigit s = (s \<noteq> [] \<and> list_all digit_char s)"

text \<open>
  \<open>str.upper\<close> is not called by the source; the specification tests lookups with it.
  It maps \<open>a-z\<close> and the Latin-1 small letters \<open>U+00E0-U+00FE\<close> (the division sign
  \<open>U+00F7\<close> apart) to the letter 32 places back and the sharp s \<open>U+00DF\<close> to the two
  letters \<open>SS\<close>. The upper-case forms of \<open>U+00B5\<close> and \<open>U+00FF\<close> are \<open>U+039C\<close> and
  \<open>U+0178\<close>, code points the model does not have: there \<open>upper\<close> is \<open>None\<close>.
  \<open>isascii\<close> is \<open>str.isascii\<close>.
\<close>

definition upper_char :: "char \<Rightarrow> string option" where
  "upper_char c =
     (if (CHR ''a'' \<le> c \<and> c \<le> CHR ''z'') \<or> (CHR 0xE0 \<le> c \<and> c \<le> CHR 0xFE \<and> c \<noteq> CHR 0xF7)
      then Some [char_of (of_char c - (32::nat))]
      else if c = CHR 0xDF then Some ''SS''
      else if c = CHR 0xB5 \<or> c = CHR 0xFF then None
      else Some [c])"

fun upper :: "string \<Rightarrow> string option" where
  "upper [] = Some []"
| "upper (c # cs) =
     (case upper_char c of
        None \<Rightarrow> None
      | Some u \<Rightarrow> (case upper cs of None \<Rightarrow> None | Some us \<Rightarrow> Some (u @ us)))"

definition isascii :: "string \<Rightarrow> bool" where
  "isascii s = list_all (\<lambda>c. c \<le> CHR 0x7F) s"

text \<open>
  A configuration dictionary is an untyped Python \<open>dict\<close>: its values are arbitrary
  objects. The scalar values a configuration file or caller can supply are modelled;
  \<open>truthy\<close> is Python's truth test, which \<open>not x\<close> and \<open>x or y\<close> apply.
\<close>

datatype pyval = PyNone | PyBool bool | PyInt int | PyStr string

fun truthy :: "pyval \<Rightarrow> bool" where
  "truthy PyNone = False"
| "truthy (PyBool b) = b"
| "truthy (PyInt i) = (i \<noteq> 0)"
| "truthy (PyStr s) = (s \<noteq> [])"

text \<open>\<open>x or y\<close>: the first operand when it is truthy, the second otherwise.\<close>

definition py_or :: "pyval \<Rightarrow> pyval \<Rightarrow> pyval" where
  "py_or x y = (if truthy x then x else y)"

type_synonym config = "string \<rightharpoonup> pyval"

text \<open>\<open>config.get(key)\<close>: the value, or \<open>None\<close> for a missing key.\<close>

definition dict_get :: "config \<Rightarrow> string \<Rightarrow> pyval" where
  "dict_get config key = (case config key of None \<Rightarrow> PyNone | Some v \<Rightarrow> v)"

text \<open>
  The process environment maps variable names to strings; \<open>os.getenv(name)\<close> is the
  value, or \<open>None\<close> for an unset variable.
\<close>

type_synonym environ = "string \<rightharpoonup> string"

definition getenv :: "environ \<Rightarrow> string \<Rightarrow> pyval" where
  "getenv env var = (case env var of None \<Rightarrow> PyNone | Some s \<Rightarrow> PyStr s)"

text \<open>
  An exception is a value: the name of its class and its message (\<open>str(e)\<close>). \<open>PyExc\<close>
  is an instance of \<open>Exception\<close>, which a handler \<open>except Exception\<close> catches;
  \<open>PyBaseExc\<close> is an instance of a class outside \<open>Exception\<close> (\<open>SystemExit\<close>,
  \<open>KeyboardInterrupt\<close>, \<open>GeneratorExit\<close>), which such a handler lets through.
\<close>

datatype exn =
  PyExc (exc_type: string) (exc_msg: string)
  | PyBaseExc (exc_type: string) (exc_msg: string)

text \<open>
  \<open>str\<close> has \<open>isdigit\<close>; \<open>None\<close>, \<open>bool\<close> and \<open>int\<close> objects have no such attribute, and
  the attribute lookup raises \<open>AttributeError\<close>.
\<close>

fun type_name :: "pyval \<Rightarrow> string" where
  "type_name PyNone = ''NoneType''"
| "type_name (PyBool b) = ''bool''"
| "type_name (PyInt i) = ''int''"
| "type_name (PyStr s) = ''str''"

definition no_attribute :: "pyval \<Rightarrow> string \<Rightarrow> exn" where
  "no_attribute v attr =
     PyExc ''AttributeError''
       ([CHR 0x27] @ type_name v @ [CHR 0x27] @ '' object has no attribute '' @
        [CHR 0x27] @ attr @ [CHR 0x27])"

section \<open>Provider classes\<close>

text \<open>
  \<open>validate_config\<close> returns a pair \<open>(is_valid, error_message)\<close>, or raises.
\<close>

type_synonym validation = "exn + (bool \<times> string option)"

text \<open>\<open>OllamaProvider.validate_config\<close> (builtin/ollama.py).\<close>

definition ollama_validate_config :: "config \<Rightarrow> validation" where
  "ollama_validate_config config =
     (let model_name = dict_get config ''model_name'' in
      if \<not> truthy model_name
      then Inr (False, Some ''model_name is required for Ollama provider'')
      else Inr (True, None))"

text \<open>\<open>OpenAIProvider.validate_config\<close> (builtin/openai.py).\<close>

definition openai_validate_config :: "config \<Rightarrow> validation" where
  "openai_validate_config config =
     (let model_name = dict_get config ''model_name'' in
      if \<not> truthy model_name
      then Inr (False, Some ''model_name is required for OpenAI provider'')
      else let api_key = dict_get config ''api_key'' in
        if \<not> truthy api_key
        then Inr (False, Some ''OPENAI_API_KEY environment variable must be set'')
        else Inr (True, None))"

text \<open>\<open>AnthropicProvider.validate_config\<close> (builtin/anthropic.py).\<close>

definition anthropic_validate_config :: "config \<Rightarrow> validation" where
  "anthropic_validate_config config =
     (let model_name = dict_get config ''model_name'' in
      if \<not> truthy model_name
      then Inr (False, Some ''model_name is required for Anthropic provider'')
      else let api_key = dict_get config ''api_key'' in
        if \<not> truthy api_key
        then Inr (False, Some ''ANTHROPIC_API_KEY environment variable must be set'')
        else Inr (True, None))"

text \<open>\<open>GoogleProvider.validate_config\<close> (builtin/google.py).\<close>

definition google_validate_config :: "config \<Rightarrow> validation" where
  "google_validate_config config =
     (let model_name = dict_get config ''model_name'' in
      if \<not> truthy model_name
      then Inr (False, Some ''model_name is required for Google provider'')
      else let api_key = dict_get config ''api_key'' in
        if \<not> truthy api_key
        then Inr (False, Some ''GOOGLE_GEN_AI_API_KEY environment variable must be set'')
        else Inr (True, None))"

text \<open>\<open>CerebrasProvider.validate_config\<close> (builtin/cerebras.py).\<close>

definition cerebras_validate_config :: "config \<Rightarrow> validation" where
  "cerebras_validate_config config =
     (let model_name = dict_get config ''model_name'' in
      if \<not> truthy model_name
      then Inr (False, Some ''model_name is required for Cerebras provider'')
      else let api_key = dict_get config ''api_key'' in
        if \<not> truthy api_key
        then Inr (False, Some ''CEREBRAS_API_KEY environment variable must be set'')
        else Inr (True, None))"

text \<open>
  \<open>MinimaxProvider.validate_config\<close> (custom/minimax.py). It reads the process
  environment, which is therefore an argument. \<open>group_id.isdigit()\<close> is an attribute
  lookup on whatever object \<open>group_id\<close> is; the f-string of the last message formats a
  string \<open>group_id\<close> as itself.
\<close>

definition minimax_validate_config :: "environ \<Rightarrow> config \<Rightarrow> validation" where
  "minimax_validate_config env config =
     (let model_name = dict_get config ''model_name'' in
      if \<not> truthy model_name
      then Inr (False, Some ''model_name is required for MiniMax provider'')
      else let api_key = dict_get config ''api_key'' in
        if \<not> truthy api_key
        then Inr (False, Some (''MINIMAX_API_KEY environment variable must be set. '' @
                               ''Get it from https://platform.minimax.io/''))
        else let group_id = py_or (dict_get config ''group_id'') (getenv env ''MINIMAX_GROUP_ID'') in
          if \<not> truthy group_id
          then Inr (False, Some (''MINIMAX_GROUP_ID environment variable must be set. '' @
                                 ''This is your 19-digit account identifier.''))
          else (case group_id of
                  PyStr s \<Rightarrow>
                    if \<not> isdigit s \<or> length s \<noteq> 19
                    then Inr (False, Some (''MINIMAX_GROUP_ID should be a 19-digit number, got: '' @ s))
                    else Inr (True, None)
                | v \<Rightarrow> Inl (no_attribute v ''isdigit'')))"

text \<open>
  The concrete provider classes the repository ships: the five of \<open>builtin/\<close> and
  \<open>MinimaxProvider\<close> of \<open>custom/minimax.py\<close>.
\<close>

datatype provider =
  OllamaProvider | OpenAIProvider | AnthropicProvider | GoogleProvider | CerebrasProvider
  | MinimaxProvider

fun validate_config :: "provider \<Rightarrow> environ \<Rightarrow> config \<Rightarrow> validation" where
  "validate_config OllamaProvider env config = ollama_validate_config config"
| "validate_config OpenAIProvider env config = openai_validate_config config"
| "validate_config AnthropicProvider env config = anthropic_validate_config config"
| "validate_config GoogleProvider env config = google_validate_config config"
| "validate_config CerebrasProvider env config = cerebras_validate_config config"
| "validate_config MinimaxProvider env config = minimax_validate_config env config"

text \<open>
  A plugin module may export any class. What discovery and the registry observe of a
  class is recorded in a \<open>class_decl\<close>: whether it inherits \<open>BaseProvider\<close>, whether
  calling it raises, what its \<open>name\<close> property yields, what \<open>get_display_name\<close> of an
  instance yields (its own method, or the inherited \<open>self.name.capitalize()\<close>), and
  what its other descriptive methods return (\<open>None\<close> for a method it inherits from
  \<open>BaseProvider\<close> unchanged).
\<close>

record class_decl =
  cls_name :: string
  inherits_base :: bool
  init_raises :: "exn option"
  name_property :: "exn + string"
  display_name :: "exn + string"
  required_env_vars :: "string list"
  default_model_override :: "string option"
  available_models_override :: "string list option"
  streaming_override :: "bool option"

datatype py_class = BaseProvider | Provider provider | PluginClass class_decl

text \<open>An object found in a module: a class (\<open>isinstance(attr, type)\<close>) or anything else.\<close>

datatype py_obj = Type py_class | NonType

fun issubclass_BaseProvider :: "py_class \<Rightarrow> bool" where
  "issubclass_BaseProvider BaseProvider = True"
| "issubclass_BaseProvider (Provider p) = True"
| "issubclass_BaseProvider (PluginClass d) = inherits_base d"

text \<open>
  Providers are stateless, so an instance is determined by its class. Calling the
  abstract \<open>BaseProvider\<close> raises \<open>TypeError\<close>; the shipped classes define no
  \<open>__init__\<close> and their construction cannot fail.
\<close>

datatype inst = Instance py_class

fun instantiate :: "py_class \<Rightarrow> exn + inst" where
  "instantiate BaseProvider =
     Inl (PyExc ''TypeError'' (''Can'' @ [CHR 0x27] @ ''t instantiate abstract class BaseProvider''))"
| "instantiate (Provider p) = Inr (Instance (Provider p))"
| "instantiate (PluginClass d) =
     (case init_raises d of Some e \<Rightarrow> Inl e | None \<Rightarrow> Inr (Instance (PluginClass d)))"

text \<open>
  The \<open>name\<close> property. \<open>BaseProvider\<close> has no instance, so the last equation of
  \<open>name\<close> and of \<open>get_display_name\<close> is never reached.
\<close>

fun provider_name :: "provider \<Rightarrow> string" where
  "provider_name OllamaProvider = ''ollama''"
| "provider_name OpenAIProvider = ''openai''"
| "provider_name AnthropicProvider = ''anthropic''"
| "provider_name GoogleProvider = ''google''"
| "provider_name CerebrasProvider = ''cerebras''"
| "provider_name MinimaxProvider = ''minimax''"

fun name :: "inst \<Rightarrow> exn + string" where
  "name (Instance (Provider p)) = Inr (provider_name p)"
| "name (Instance (PluginClass d)) = name_property d"
| "name (Instance BaseProvider) = Inl (PyExc ''TypeError'' ''abstract'')"

text \<open>The descriptive methods, with the defaults of \<open>BaseProvider\<close>.\<close>

fun get_display_name :: "inst \<Rightarrow> exn + string" where
  "get_display_name (Instance (Provider OllamaProvider)) = Inr ''Ollama (Local)''"
| "get_display_name (Instance (Provider OpenAIProvider)) = Inr ''OpenAI''"
| "get_display_name (Instance (Provider AnthropicProvider)) = Inr ''Anthropic (Claude)''"
| "get_display_name (Instance (Provider GoogleProvider)) = Inr ''Google Gemini''"
| "get_display_name (Instance (Provider CerebrasProvider)) = Inr ''Cerebras''"
| "get_display_name (Instance (Provider MinimaxProvider)) = Inr ''MiniMax M2''"
| "get_display_name (Instance (PluginClass d)) = display_name d"
| "get_display_name (Instance BaseProvider) = Inl (PyExc ''TypeError'' ''abstract'')"

fun get_required_env_vars :: "inst \<Rightarrow> string list" where
  "get_required_env_vars (Instance (Provider OllamaProvider)) = []"
| "get_required_env_vars (Instance (Provider OpenAIProvider)) = [''OPENAI_API_KEY'']"
| "get_required_env_vars (Instance (Provider AnthropicProvider)) = [''ANTHROPIC_API_KEY'']"
| "get_required_env_vars (Instance (Provider GoogleProvider)) = [''GOOGLE_GEN_AI_API_KEY'']"
| "get_required_env_vars (Instance (Provider CerebrasProvider)) = [''CEREBRAS_API_KEY'']"
| "get_required_env_vars (Instance (Provider MinimaxProvider)) =
     [''MINIMAX_API_KEY'', ''MINIMAX_GROUP_ID'']"
| "get_required_env_vars (Instance (PluginClass d)) = required_env_vars d"
| "get_required_env_vars (Instance BaseProvider) = []"

fun get_default_model :: "inst \<Rightarrow> string option" where
  "get_default_model (Instance (Provider OllamaProvider)) = Some ''qwen2.5-coder:7b''"
| "get_default_model (Instance (Provider OpenAIProvider)) = Some ''gpt-4o''"
| "get_default_model (Instance (Provider AnthropicProvider)) = Some ''claude-sonnet-4-5-20250929''"
| "get_default_model (Instance (Provider GoogleProvider)) = Some ''gemini-2.0-flash-exp''"
| "get_default_model (Instance (Provider CerebrasProvider)) = Some ''llama3.1-70b''"
| "get_default_model (Instance (Provider MinimaxProvider)) = Some ''minimax-m2''"
| "get_default_model (Instance (PluginClass d)) = default_model_override d"
| "get_default_model (Instance BaseProvider) = None"

fun get_available_models :: "inst \<Rightarrow> string list" where
  "get_available_models (Instance (Provider OllamaProvider)) =
     [''qwen2.5-coder:7b'', ''qwen2.5:latest'', ''llama3.2:latest'', ''codellama:latest'',
      ''mistral:latest'']"
| "get_available_models (Instance (Provider OpenAIProvider)) =
     [''gpt-4o'', ''gpt-4o-mini'', ''gpt-4-turbo'', ''gpt-3.5-turbo'']"
| "get_available_models (Instance (Provider AnthropicProvider)) =
     [''claude-sonnet-4-5-20250929'', ''claude-3-5-sonnet-20241022'',
      ''claude-3-5-haiku-20241022'', ''claude-3-opus-20240229'']"
| "get_available_models (Instance (Provider GoogleProvider)) =
     [''gemini-2.0-flash-exp'', ''gemini-2.5-flash'', ''gemini-1.5-pro'', ''gemini-1.5-flash'']"
| "get_available_models (Instance (Provider CerebrasProvider)) =
     [''llama3.1-70b'', ''llama3.1-8b'']"
| "get_available_models (Instance (Provider MinimaxProvider)) = [''minimax-m2'']"
| "get_available_models (Instance (PluginClass d)) =
     (case available_models_override d of Some ms \<Rightarrow> ms | None \<Rightarrow> [])"
| "get_available_models (Instance BaseProvider) = []"

fun supports_streaming :: "inst \<Rightarrow> bool" where
  "supports_streaming (Instance (PluginClass d)) =
     (case streaming_override d of Some b \<Rightarrow> b | None \<Rightarrow> True)"
| "supports_streaming (Instance c) = True"

section \<open>The registry\<close>

text \<open>
  \<open>ProviderRegistry._providers\<close> is a \<open>dict\<close> from identifier to provider class. It is
  an association list in insertion order; \<open>d[k] = v\<close> is \<open>AList.update\<close> (the value is
  replaced in place for a present key, the pair is appended for a new one), \<open>d.get(k)\<close>
  is \<open>map_of\<close>, and \<open>k in d\<close> is membership among the keys.
\<close>

type_synonym registry = "(string \<times> py_class) list"

definition keys :: "registry \<Rightarrow> string list" where
  "keys r = map fst r"

text \<open>
  \<open>print\<close> appends a line to standard output. Discovery runs on the registry and the
  output written so far.
\<close>

type_synonym state = "registry \<times> string list"

definition builtin_providers :: "provider list" where
  "builtin_providers =
     [OllamaProvider, OpenAIProvider, AnthropicProvider, GoogleProvider, CerebrasProvider]"

text \<open>
  \<open>_load_builtin_providers\<close>: the loop over the list; an exception of the
  instantiation or of \<open>name\<close> would propagate, there being no handler.
\<close>

fun load_builtin_loop :: "py_class list \<Rightarrow> registry \<Rightarrow> exn + registry" where
  "load_builtin_loop [] r = Inr r"
| "load_builtin_loop (provider_class # rest) r =
     (case instantiate provider_class of
        Inl e \<Rightarrow> Inl e
      | Inr provider_instance \<Rightarrow>
          (case name provider_instance of
             Inl e \<Rightarrow> Inl e
           | Inr n \<Rightarrow> load_builtin_loop rest (AList.update n provider_class r)))"

definition load_builtin_providers :: "registry \<Rightarrow> exn + registry" where
  "load_builtin_providers r = load_builtin_loop (map Provider builtin_providers) r"

text \<open>The two warnings of \<open>_discover_custom_providers\<close>.\<close>

definition override_warning :: "string \<Rightarrow> string \<Rightarrow> string" where
  "override_warning provider_nm module_name =
     ''Warning: Custom provider '' @ [CHR 0x27] @ provider_nm @ [CHR 0x27] @ '' '' @
     ''from '' @ module_name @ ''.py overrides built-in provider''"

definition failed_warning :: "string \<Rightarrow> exn \<Rightarrow> string" where
  "failed_warning module_name e =
     ''Warning: Failed to load custom provider from '' @ module_name @ ''.py: '' @ exc_msg e"

text \<open>
  The body of the inner loop for one attribute of the module. The three tests are
  evaluated left to right; instantiation and \<open>name\<close> come before the \<open>print\<close> and the
  assignment, so an exception leaves the state as it was before this attribute.
\<close>

definition register_attr :: "string \<Rightarrow> py_obj \<Rightarrow> state \<Rightarrow> exn + state" where
  "register_attr module_name attr s =
     (case attr of
        NonType \<Rightarrow> Inr s
      | Type c \<Rightarrow>
          if issubclass_BaseProvider c \<and> c \<noteq> BaseProvider then
            (case instantiate c of
               Inl e \<Rightarrow> Inl e
             | Inr provider_instance \<Rightarrow>
                 (case name provider_instance of
                    Inl e \<Rightarrow> Inl e
                  | Inr n \<Rightarrow>
                      Inr (AList.update n c (fst s),
                           if n \<in> set (keys (fst s))
                           then snd s @ [override_warning n module_name]
                           else snd s)))
          else Inr s)"

text \<open>
  The inner loop \<open>for attr_name in dir(module)\<close>. A module's namespace is the list of
  pairs \<open>(attr_name, getattr(module, attr_name))\<close> in the order of \<open>dir(module)\<close>. The
  registry is mutated in place, so the registrations made before an exception stay;
  the loop returns the state reached and the exception that ended it, if any.
\<close>

type_synonym namespace = "(string \<times> py_obj) list"

fun scan_attrs :: "string \<Rightarrow> namespace \<Rightarrow> state \<Rightarrow> state \<times> exn option" where
  "scan_attrs module_name [] s = (s, None)"
| "scan_attrs module_name ((attr_name, attr) # rest) s =
     (case register_attr module_name attr s of
        Inl e \<Rightarrow> (s, Some e)
      | Inr s' \<Rightarrow> scan_attrs module_name rest s')"

text \<open>
  A plugin module of the \<open>custom\<close> directory: its name and what importing it does,
  raise or yield the module's namespace.
\<close>

datatype plugin = Plugin (mod_name: string) (import_module: "exn + namespace")

text \<open>
  The handler \<open>except Exception as e\<close>: an instance of \<open>Exception\<close> is reported on
  standard output and swallowed; any other exception goes on to the caller, with the
  registry and the output as they are.
\<close>

definition handle_exception :: "string \<Rightarrow> exn \<Rightarrow> state \<Rightarrow> state \<times> exn option" where
  "handle_exception module_name e s =
     (case e of
        PyExc t msg \<Rightarrow> ((fst s, snd s @ [failed_warning module_name e]), None)
      | PyBaseExc t msg \<Rightarrow> (s, Some e))"

text \<open>
  The body of the outer loop: the \<open>try\<close> block and its handler. Like the inner
  loop, it returns the state reached and the exception that leaves it, if any.
\<close>

definition load_plugin :: "plugin \<Rightarrow> state \<Rightarrow> state \<times> exn option" where
  "load_plugin m s =
     (case import_module m of
        Inl e \<Rightarrow> handle_exception (mod_name m) e s
      | Inr ns \<Rightarrow>
          (case scan_attrs (mod_name m) ns s of
             (s', None) \<Rightarrow> (s', None)
           | (s', Some e) \<Rightarrow> handle_exception (mod_name m) e s'))"

text \<open>The outer loop: an exception that leaves a module's body ends it.\<close>

fun discover_loop :: "plugin list \<Rightarrow> state \<Rightarrow> state \<times> exn option" where
  "discover_loop [] s = (s, None)"
| "discover_loop (m # ms) s =
     (case load_plugin m s of
        (s', None) \<Rightarrow> discover_loop ms s'
      | (s', Some e) \<Rightarrow> (s', Some e))"

text \<open>
  \<open>_discover_custom_providers\<close>. The \<open>custom\<close> directory is \<open>None\<close> when it does not
  exist, and otherwise the modules \<open>pkgutil.iter_modules\<close> lists, in its order. The
  insertion into \<open>sys.path\<close> only decides how the imports resolve, which
  \<open>import_module\<close> of each plugin records.
\<close>

definition discover_custom_providers :: "plugin list option \<Rightarrow> state \<Rightarrow> state \<times> exn option" where
  "discover_custom_providers custom_dir s =
     (case custom_dir of None \<Rightarrow> (s, None) | Some ms \<Rightarrow> discover_loop ms s)"

text \<open>
  \<open>ProviderRegistry.__init__\<close>. It has no handler: an exception of either step is
  the outcome of the construction, and no registry object exists then.
\<close>

definition init :: "plugin list option \<Rightarrow> string list \<Rightarrow> exn + state" where
  "init custom_dir out =
     (case load_builtin_providers [] of
        Inl e \<Rightarrow> Inl e
      | Inr r \<Rightarrow>
          (case discover_custom_providers custom_dir (r, out) of
             (s, None) \<Rightarrow> Inr s
           | (s, Some e) \<Rightarrow> Inl e))"

text \<open>The query methods.\<close>

definition get_provider :: "registry \<Rightarrow> string \<Rightarrow> py_class option" where
  "get_provider r provider_nm = map_of r (lower provider_nm)"

definition list_providers :: "registry \<Rightarrow> string list" where
  "list_providers r = sort (keys r)"

definition is_provider_available :: "registry \<Rightarrow> string \<Rightarrow> bool" where
  "is_provider_available r provider_nm = (lower provider_nm \<in> set (keys r))"

record provider_info =
  info_name :: string
  info_display_name :: string
  info_required_env_vars :: "string list"
  info_default_model :: "string option"
  info_available_models :: "string list"
  info_supports_streaming :: bool

definition get_provider_info :: "registry \<Rightarrow> string \<Rightarrow> exn + provider_info option" where
  "get_provider_info r provider_nm =
     (case get_provider r provider_nm of
        None \<Rightarrow> Inr None
      | Some provider_class \<Rightarrow>
          (case instantiate provider_class of
             Inl e \<Rightarrow> Inl e
           | Inr provider_instance \<Rightarrow>
               (case name provider_instance of
                  Inl e \<Rightarrow> Inl e
                | Inr n \<Rightarrow>
                    (case get_display_name provider_instance of
                       Inl e \<Rightarrow> Inl e
                     | Inr dn \<Rightarrow>
                         Inr (Some \<lparr>info_name = n, info_display_name = dn,
                               info_required_env_vars = get_required_env_vars provider_instance,
                               info_default_model = get_default_model provider_instance,
                               info_available_models = get_available_models provider_instance,
                               info_supports_streaming = supports_streaming provider_instance\<rparr>)))))"

section \<open>Registrations\<close>

text \<open>
  The only statement that changes \<open>_providers\<close> is the assignment
  \<open>self._providers[name] = cls\<close>. \<open>register\<close> is that assignment, and the functions
  below list the assignments a loop performs, in order: \<open>reported_name\<close> is the
  identifier read off a fresh instance, \<open>registrations\<close> are the pairs the inner loop
  assigns before it ends (normally or by the first exception), \<open>first_failure\<close> is
  that exception, \<open>aborts\<close> says that the exception leaving a module's \<open>try\<close> block is
  not an instance of \<open>Exception\<close>, and \<open>all_registrations\<close> are the registrations of a
  whole directory listing, which ends at the first module that aborts.
\<close>

definition reported_name :: "py_class \<Rightarrow> exn + string" where
  "reported_name c = (case instantiate c of Inl e \<Rightarrow> Inl e | Inr i \<Rightarrow> name i)"

definition register :: "registry \<Rightarrow> string \<times> py_class \<Rightarrow> registry" where
  "register r nc = AList.update (fst nc) (snd nc) r"

fun registrations :: "namespace \<Rightarrow> (string \<times> py_class) list" where
  "registrations [] = []"
| "registrations ((attr_name, NonType) # rest) = registrations rest"
| "registrations ((attr_name, Type c) # rest) =
     (if issubclass_BaseProvider c \<and> c \<noteq> BaseProvider
      then (case reported_name c of
              Inl e \<Rightarrow> []
            | Inr n \<Rightarrow> (n, c) # registrations rest)
      else registrations rest)"

definition plugin_registrations :: "plugin \<Rightarrow> (string \<times> py_class) list" where
  "plugin_registrations m =
     (case import_module m of Inl e \<Rightarrow> [] | Inr ns \<Rightarrow> registrations ns)"

fun first_failure :: "namespace \<Rightarrow> exn option" where
  "first_failure [] = None"
| "first_failure ((attr_name, NonType) # rest) = first_failure rest"
| "first_failure ((attr_name, Type c) # rest) =
     (if issubclass_BaseProvider c \<and> c \<noteq> BaseProvider
      then (case reported_name c of
              Inl e \<Rightarrow> Some e
            | Inr n \<Rightarrow> first_failure rest)
      else first_failure rest)"

definition plugin_failure :: "plugin \<Rightarrow> exn option" where
  "plugin_failure m =
     (case import_module m of Inl e \<Rightarrow> Some e | Inr ns \<Rightarrow> first_failure ns)"

definition aborts :: "plugin \<Rightarrow> bool" where
  "aborts m =
     (case plugin_failure m of
        None \<Rightarrow> False
      | Some (PyExc t msg) \<Rightarrow> False
      | Some (PyBaseExc t msg) \<Rightarrow> True)"

fun all_registrations :: "plugin list \<Rightarrow> (string \<times> py_class) list" where
  "all_registrations [] = []"
| "all_registrations (m # ms) =
     plugin_registrations m @ (if aborts m then [] else all_registrations ms)"

text \<open>Some module of the directory aborts discovery.\<close>

definition aborting :: "plugin list option \<Rightarrow> bool" where
  "aborting custom_dir = (case custom_dir of None \<Rightarrow> False | Some ms \<Rightarrow> list_ex aborts ms)"

text \<open>
  The specification's selection: the exported symbols that are types, implement the
  provider contract and are not the contract type itself.
\<close>

fun selected :: "namespace \<Rightarrow> py_class list" where
  "selected [] = []"
| "selected ((attr_name, NonType) # rest) = selected rest"
| "selected ((attr_name, Type c) # rest) =
     (if issubclass_BaseProvider c \<and> c \<noteq> BaseProvider then c # selected rest
      else selected rest)"


text \<open>
  The registry during construction. Construction performs the registrations of the
  built-in loop and then those of discovery; the registry at an instant is the empty
  dictionary after the first \<open>k\<close> of them.
\<close>

definition registration_sequence :: "plugin list option \<Rightarrow> (string \<times> py_class) list" where
  "registration_sequence custom_dir =
     map (\<lambda>p. (provider_name p, Provider p)) builtin_providers @
     (case custom_dir of None \<Rightarrow> [] | Some ms \<Rightarrow> all_registrations ms)"

definition registry_at :: "plugin list option \<Rightarrow> nat \<Rightarrow> registry" where
  "registry_at custom_dir k = foldl register [] (take k (registration_sequence custom_dir))"

text \<open>Every custom class that discovery registers reports a lowercase name.\<close>

definition lowercase_names :: "plugin list option \<Rightarrow> bool" where
  "lowercase_names custom_dir =
     (case custom_dir of
        None \<Rightarrow> True
      | Some ms \<Rightarrow> list_all (\<lambda>nc. lower (fst nc) = fst nc) (all_registrations ms))"

section \<open>Example data\<close>

text \<open>Configurations and environments for \<open>MinimaxProvider.validate_config\<close>.\<close>

definition env_unset :: environ where
  "env_unset = Map.empty"

definition env_group :: environ where
  "env_group = [''MINIMAX_GROUP_ID'' \<mapsto> ''1234567890123456789'']"

definition config_no_group :: config where
  "config_no_group =
     [''model_name'' \<mapsto> PyStr ''minimax-m2'', ''api_key'' \<mapsto> PyStr ''secret'']"

definition config_int_group :: config where
  "config_int_group =
     [''model_name'' \<mapsto> PyStr ''minimax-m2'', ''api_key'' \<mapsto> PyStr ''secret'',
      ''group_id'' \<mapsto> PyInt 12345]"

text \<open>
  A concrete provider class of a plugin, with the given class name and \<open>name\<close>, and a
  class that does not inherit \<open>BaseProvider\<close>.
\<close>

definition custom_provider :: "string \<Rightarrow> string \<Rightarrow> py_class" where
  "custom_provider cn n =
     PluginClass \<lparr>cls_name = cn, inherits_base = True, init_raises = None,
       name_property = Inr n, display_name = Inr cn, required_env_vars = [],
       default_model_override = None, available_models_override = None,
       streaming_override = None\<rparr>"

definition plain_class :: "string \<Rightarrow> py_class" where
  "plain_class cn =
     PluginClass \<lparr>cls_name = cn, inherits_base = False, init_raises = None,
       name_property = Inl (PyExc ''AttributeError'' ''name''),
       display_name = Inl (PyExc ''AttributeError'' ''get_display_name''),
       required_env_vars = [], default_model_override = None,
       available_models_override = None, streaming_override = None\<rparr>"


text \<open>
  The module \<open>custom/minimax.py\<close> of the repository: the names it imports and the
  class it defines.
\<close>

definition minimax_namespace :: namespace where
  "minimax_namespace =
     [(''Any'', Type (plain_class ''Any'')), (''BaseProvider'', Type BaseProvider),
      (''MinimaxProvider'', Type (Provider MinimaxProvider)), (''Optional'', NonType),
      (''__name__'', NonType), (''os'', NonType)]"

definition minimax_module :: plugin where
  "minimax_module = Plugin ''minimax'' (Inr minimax_namespace)"

text \<open>The registry after the built-in loop, and the registry of the repository as shipped.\<close>

definition builtin_registry :: registry where
  "builtin_registry =
     [(''ollama'', Provider OllamaProvider), (''openai'', Provider OpenAIProvider),
      (''anthropic'', Provider AnthropicProvider), (''google'', Provider GoogleProvider),
      (''cerebras'', Provider CerebrasProvider)]"

definition shipped_registry :: registry where
  "shipped_registry = builtin_registry @ [(''minimax'', Provider MinimaxProvider)]"

text \<open>The two modules of the specification's scenario, both naming their provider \<open>vendorx\<close>.\<close>

definition vendorA :: plugin where
  "vendorA = Plugin ''vendorA'' (Inr [(''ProviderA'', Type (custom_provider ''ProviderA'' ''vendorx''))])"

definition vendorB :: plugin where
  "vendorB = Plugin ''vendorB'' (Inr [(''ProviderB'', Type (custom_provider ''ProviderB'' ''vendorx''))])"

definition vendor_registry :: registry where
  "vendor_registry = builtin_registry @ [(''vendorx'', custom_provider ''ProviderB'' ''vendorx'')]"

text \<open>The same two modules with the mixed-case name \<open>VendorX\<close>.\<close>

definition vendorA_mixed :: plugin where
  "vendorA_mixed =
     Plugin ''vendorA'' (Inr [(''ProviderA'', Type (custom_provider ''ProviderA'' ''VendorX''))])"

definition vendorB_mixed :: plugin where
  "vendorB_mixed =
     Plugin ''vendorB'' (Inr [(''ProviderB'', Type (custom_provider ''ProviderB'' ''VendorX''))])"

definition mixed_registry :: registry where
  "mixed_registry = builtin_registry @ [(''VendorX'', custom_provider ''ProviderB'' ''VendorX'')]"










text \<open>
  A module whose provider is named \<open>stra\<close>, sharp s, \<open>e\<close>: a lowercase name whose
  upper-case form is \<open>STRASSE\<close>; and the registry it leads to.
\<close>

definition strasse :: string where
  "strasse = ''stra'' @ [CHR 0xDF] @ ''e''"

definition strasse_module :: plugin where
  "strasse_module = Plugin ''strasse'' (Inr [(''Strasse'', Type (custom_provider ''Strasse'' strasse))])"

definition strasse_registry :: registry where
  "strasse_registry = builtin_registry @ [(strasse, custom_provider ''Strasse'' strasse)]"

text \<open>A group id of nineteen superscript twos.\<close>

definition config_superscript_group :: config where
  "config_superscript_group =
     [''model_name'' \<mapsto> PyStr ''minimax-m2'', ''api_key'' \<mapsto> PyStr ''secret'',
      ''group_id'' \<mapsto> PyStr (replicate 19 (CHR 0xB2))]"

text \<open>A module whose provider is named \<open>OpenAI\<close>, and the registry it leads to.\<close>

definition shadow_openai :: plugin where
  "shadow_openai =
     Plugin ''shadow'' (Inr [(''MyOpenAI'', Type (custom_provider ''MyOpenAI'' ''OpenAI''))])"

definition shadow_registry :: registry where
  "shadow_registry = builtin_registry @ [(''OpenAI'', custom_provider ''MyOpenAI'' ''OpenAI'')]"

section \<open>Strings\<close>

lemma char_eq_code: "(c = d) = ((of_char c :: nat) = of_char d)"
  by simp

lemma lower_char_code:
  "(of_char (lower_char c) :: nat) =
     (if (65 \<le> (of_char c :: nat) \<and> (of_char c :: nat) \<le> 90)
         \<or> (192 \<le> (of_char c :: nat) \<and> (of_char c :: nat) \<le> 222 \<and> (of_char c :: nat) \<noteq> 215)
      then of_char c + 32 else of_char c)"
proof -
  have lt: "(of_char c :: nat) < 256" by simp
  show ?thesis
    unfolding lower_char_def less_eq_char_def char_eq_code [of c "CHR 0xD7"]
    using lt by (simp add: of_char_of del: nat_of_char_less_256)
qed

lemma upper_char_code:
  "upper_char c =
     (if (97 \<le> (of_char c :: nat) \<and> (of_char c :: nat) \<le> 122)
         \<or> (224 \<le> (of_char c :: nat) \<and> (of_char c :: nat) \<le> 254 \<and> (of_char c :: nat) \<noteq> 247)
      then Some [char_of ((of_char c :: nat) - 32)]
      else if (of_char c :: nat) = 223 then Some ''SS''
      else if (of_char c :: nat) = 181 \<or> (of_char c :: nat) = 255 then None
      else Some [c])"
  unfolding upper_char_def less_eq_char_def char_eq_code [of c "CHR 0xF7"]
    char_eq_code [of c "CHR 0xDF"] char_eq_code [of c "CHR 0xB5"] char_eq_code [of c "CHR 0xFF"]
  by simp

lemma upper_char_lower:
  assumes "c \<noteq> CHR 0xDF" "upper_char c = Some us"
  shows "map lower_char us = [lower_char c]"
proof -
  have lt: "(of_char c :: nat) < 256" by simp
  have ne: "(of_char c :: nat) \<noteq> 223"
    using assms(1) by (simp add: char_eq_code [of c "CHR 0xDF"])
  show ?thesis
  proof (cases "(97 \<le> (of_char c :: nat) \<and> (of_char c :: nat) \<le> 122)
         \<or> (224 \<le> (of_char c :: nat) \<and> (of_char c :: nat) \<le> 254 \<and> (of_char c :: nat) \<noteq> 247)")
    case True
    then have us: "us = [char_of ((of_char c :: nat) - 32)]"
      using assms(2) by (simp add: upper_char_code)
    have "(of_char (lower_char (char_of ((of_char c :: nat) - 32))) :: nat) = of_char (lower_char c)"
      using True lt unfolding lower_char_code by (auto simp: of_char_of)
    then show ?thesis using us by (simp del: of_char_of)
  next
    case False
    then have "us = [c]"
      using assms(2) ne unfolding upper_char_code by (auto split: if_splits)
    then show ?thesis by simp
  qed
qed

lemma ascii_upper_char: "c \<le> CHR 0x7F \<Longrightarrow> \<exists>x. upper_char c = Some x"
  unfolding upper_char_code less_eq_char_def by simp

lemma lower_char_not_capital: "lower_char c \<noteq> CHR ''O'' \<and> lower_char c \<noteq> CHR ''V''"
proof -
  have lt: "(of_char c :: nat) < 256" by simp
  have "(of_char (lower_char c) :: nat) \<noteq> 79 \<and> (of_char (lower_char c) :: nat) \<noteq> 86"
    unfolding lower_char_code by auto
  then show ?thesis
    by (auto simp: char_eq_code [of "lower_char c"] simp del: of_char_eq_iff)
qed

lemma upper_lower:
  "CHR 0xDF \<notin> set n \<Longrightarrow> upper n = Some u \<Longrightarrow> lower u = lower n"
proof (induction n arbitrary: u)
  case Nil
  then show ?case by (simp add: lower_def)
next
  case (Cons c cs)
  from Cons.prems(2) obtain x xs where x: "upper_char c = Some x" and xs: "upper cs = Some xs"
    and u: "u = x @ xs"
    by (auto split: option.splits)
  have "lower xs = lower cs" using Cons.IH [OF _ xs] Cons.prems(1) by simp
  moreover have "map lower_char x = [lower_char c]"
    using upper_char_lower [OF _ x] Cons.prems(1) by auto
  ultimately show ?case using u by (simp add: lower_def)
qed

lemma ascii_upper: "isascii n \<Longrightarrow> \<exists>u. upper n = Some u"
proof (induction n)
  case Nil
  show ?case by simp
next
  case (Cons c cs)
  then obtain x xs where "upper_char c = Some x" "upper cs = Some xs"
    using ascii_upper_char [of c] by (auto simp: isascii_def)
  then show ?case by simp
qed

lemma ascii_no_sharp_s: "isascii n \<Longrightarrow> CHR 0xDF \<notin> set n"
  by (auto simp: isascii_def list_all_iff less_eq_char_def)

lemma lower_never_capital:
  "lower n \<noteq> CHR ''O'' # cs" "lower n \<noteq> CHR ''V'' # cs"
  using lower_char_not_capital by (cases n; auto simp: lower_def)+

lemma lower_minimax: "lower ''minimax'' = ''minimax''" "lower ''MiniMax'' = ''minimax''"
    "upper ''minimax'' = Some ''MINIMAX''" "lower ''MINIMAX'' = ''minimax''"
    "isascii ''minimax''"
  by code_simp+

lemma lower_nonexistent: "lower ''nonexistent'' = ''nonexistent''"
  by code_simp

lemma lower_examples: "lower ''OpenAI'' = ''openai''" "lower ''openai'' = ''openai''"
    "lower ''VendorX'' = ''vendorx''" "lower ''vendorx'' = ''vendorx''"
    "lower ''working'' = ''working''" "lower ''STRASSE'' = ''strasse''"
  by code_simp+

lemma strasse_eval: "lower strasse = strasse" "upper strasse = Some ''STRASSE''"
    "strasse \<noteq> ''strasse''"
  by code_simp+

lemma builtin_names_lower: "lower (provider_name p) = provider_name p"
  by (cases p; simp; code_simp)


section \<open>Discovery as a sequence of registrations\<close>

text \<open>
  The loops of the source change the registry only by the registrations listed by
  \<open>registrations\<close>, \<open>plugin_registrations\<close> and \<open>all_registrations\<close>, and an exception
  leaves a module's body exactly when the module \<open>aborts\<close>; the lemmas of this section
  prove it, and give the keys and the lookup of a registry built that way.
\<close>

lemma register_attr_unfold:
  "register_attr mn attr s =
     (case attr of
        NonType \<Rightarrow> Inr s
      | Type c \<Rightarrow>
          if issubclass_BaseProvider c \<and> c \<noteq> BaseProvider then
            (case reported_name c of
               Inl e \<Rightarrow> Inl e
             | Inr n \<Rightarrow> Inr (register (fst s) (n, c),
                   if n \<in> set (keys (fst s)) then snd s @ [override_warning n mn] else snd s))
          else Inr s)"
  by (simp add: register_attr_def reported_name_def register_def split: py_obj.splits sum.splits)

lemma scan_attrs_registry:
  "fst (fst (scan_attrs mn ns s)) = foldl register (fst s) (registrations ns)"
proof (induction ns arbitrary: s)
  case Nil
  show ?case by simp
next
  case (Cons a ns)
  obtain an attr where a: "a = (an, attr)" by (cases a)
  show ?case
  proof (cases "register_attr mn attr s")
    case (Inl e)
    then show ?thesis
      using a by (cases attr) (auto simp: register_attr_unfold split: if_splits sum.splits)
  next
    case (Inr s')
    then show ?thesis
      using a Cons.IH [of s']
      by (cases attr) (auto simp: register_attr_unfold split: if_splits sum.splits)
  qed
qed

lemma scan_attrs_failure: "snd (scan_attrs mn ns s) = first_failure ns"
proof (induction ns arbitrary: s)
  case Nil
  show ?case by simp
next
  case (Cons a ns)
  obtain an attr where a: "a = (an, attr)" by (cases a)
  show ?case
  proof (cases attr)
    case NonType
    then show ?thesis using a Cons [of s] by (simp add: register_attr_unfold)
  next
    case (Type c)
    show ?thesis
    proof (cases "issubclass_BaseProvider c \<and> c \<noteq> BaseProvider")
      case False
      then show ?thesis using a Type Cons [of s] by (auto simp: register_attr_unfold)
    next
      case True
      show ?thesis
      proof (cases "reported_name c")
        case (Inl e)
        then show ?thesis using a Type True by (simp add: register_attr_unfold)
      next
        case (Inr n)
        then show ?thesis using a Type True Cons by (simp add: register_attr_unfold)
      qed
    qed
  qed
qed

lemma handle_exception_registry: "fst (fst (handle_exception mn e s)) = fst s"
  by (cases e) (simp_all add: handle_exception_def)

lemma load_plugin_registry:
  "fst (fst (load_plugin m s)) = foldl register (fst s) (plugin_registrations m)"
proof (cases "import_module m")
  case (Inl e)
  then show ?thesis
    by (simp add: load_plugin_def plugin_registrations_def handle_exception_registry)
next
  case (Inr ns)
  obtain s' x where sc: "scan_attrs (mod_name m) ns s = (s', x)"
    by (cases "scan_attrs (mod_name m) ns s")
  have "fst s' = foldl register (fst s) (registrations ns)"
    using scan_attrs_registry [of "mod_name m" ns s] sc by simp
  then show ?thesis
    using Inr sc
    by (cases x) (simp_all add: load_plugin_def plugin_registrations_def handle_exception_registry)
qed

lemma handle_exception_outcome:
  "snd (handle_exception mn e s) = (case e of PyExc t msg \<Rightarrow> None | PyBaseExc t msg \<Rightarrow> Some e)"
  by (cases e) (simp_all add: handle_exception_def)

lemma load_plugin_exception:
  "snd (load_plugin m s) = (if aborts m then plugin_failure m else None)"
proof (cases "import_module m")
  case (Inl e)
  then show ?thesis
    by (cases e) (simp_all add: load_plugin_def aborts_def plugin_failure_def handle_exception_def)
next
  case (Inr ns)
  obtain s' x where sc: "scan_attrs (mod_name m) ns s = (s', x)"
    by (cases "scan_attrs (mod_name m) ns s")
  have x: "x = first_failure ns"
    using scan_attrs_failure [of "mod_name m" ns s] sc by simp
  show ?thesis
  proof (cases x)
    case None
    then show ?thesis
      using Inr sc x by (simp add: load_plugin_def aborts_def plugin_failure_def)
  next
    case (Some e)
    then show ?thesis
      using Inr sc x
      by (cases e) (simp_all add: load_plugin_def aborts_def plugin_failure_def handle_exception_def)
  qed
qed

lemma discover_loop_registry:
  "fst (fst (discover_loop ms s)) = foldl register (fst s) (all_registrations ms)"
proof (induction ms arbitrary: s)
  case Nil
  show ?case by simp
next
  case (Cons m ms)
  obtain s' x where lp: "load_plugin m s = (s', x)" by (cases "load_plugin m s")
  have r: "fst s' = foldl register (fst s) (plugin_registrations m)"
    using load_plugin_registry [of m s] lp by simp
  have x: "x = (if aborts m then plugin_failure m else None)"
    using load_plugin_exception [of m s] lp by simp
  show ?case
  proof (cases x)
    case None
    then have "\<not> aborts m"
      using x by (auto simp: aborts_def split: option.splits exn.splits)
    then show ?thesis using lp None r Cons [of s'] by simp
  next
    case (Some e)
    then have "aborts m" using x by (auto split: if_splits)
    then show ?thesis using lp Some r by simp
  qed
qed

lemma discover_loop_exception:
  "snd (discover_loop ms s) = None \<longleftrightarrow> \<not> list_ex aborts ms"
proof (induction ms arbitrary: s)
  case Nil
  show ?case by simp
next
  case (Cons m ms)
  obtain s' x where lp: "load_plugin m s = (s', x)" by (cases "load_plugin m s")
  have x: "x = (if aborts m then plugin_failure m else None)"
    using load_plugin_exception [of m s] lp by simp
  show ?case
  proof (cases x)
    case None
    then have "\<not> aborts m"
      using x by (auto simp: aborts_def split: option.splits exn.splits)
    then show ?thesis using lp None Cons [of s'] by simp
  next
    case (Some e)
    then have "aborts m" using x by (auto split: if_splits)
    then show ?thesis using lp Some by simp
  qed
qed


lemma load_builtin_loop_registry:
  "load_builtin_loop (map Provider ps) r =
     Inr (foldl register r (map (\<lambda>p. (provider_name p, Provider p)) ps))"
  by (induction ps arbitrary: r) (simp_all add: register_def)

lemma init_registry:
  "init custom_dir out = Inr (r, out') \<Longrightarrow>
     r = foldl register [] (registration_sequence custom_dir)"
proof -
  let ?r = "foldl register [] (map (\<lambda>p. (provider_name p, Provider p)) builtin_providers)"
  assume i: "init custom_dir out = Inr (r, out')"
  have b: "load_builtin_providers [] = Inr ?r"
    by (simp add: load_builtin_providers_def load_builtin_loop_registry)
  show ?thesis
  proof (cases custom_dir)
    case None
    then show ?thesis
      using i b by (auto simp: init_def discover_custom_providers_def registration_sequence_def)
  next
    case (Some ms)
    obtain s x where d: "discover_loop ms (?r, out) = (s, x)"
      by (cases "discover_loop ms (?r, out)")
    have "fst s = foldl register ?r (all_registrations ms)"
      using discover_loop_registry [of ms "(?r, out)"] d by simp
    then show ?thesis
      using i b Some d
      by (cases x) (auto simp: init_def discover_custom_providers_def registration_sequence_def)
  qed
qed

lemma init_returns:
  "\<not> aborting custom_dir \<Longrightarrow> \<exists>r out'. init custom_dir out = Inr (r, out')"
proof -
  let ?r = "foldl register [] (map (\<lambda>p. (provider_name p, Provider p)) builtin_providers)"
  assume na: "\<not> aborting custom_dir"
  have b: "load_builtin_providers [] = Inr ?r"
    by (simp add: load_builtin_providers_def load_builtin_loop_registry)
  show ?thesis
  proof (cases custom_dir)
    case None
    then show ?thesis using b by (simp add: init_def discover_custom_providers_def)
  next
    case (Some ms)
    then have "snd (discover_loop ms (?r, out)) = None"
      using na discover_loop_exception [of ms "(?r, out)"] by (simp add: aborting_def)
    then show ?thesis
      using b Some
      by (cases "discover_loop ms (?r, out)") (auto simp: init_def discover_custom_providers_def)
  qed
qed

lemma keys_register: "set (keys (register r nc)) = insert (fst nc) (set (keys r))"
  using dom_update [of "fst nc" "snd nc" r] by (simp add: register_def keys_def)


lemma distinct_register: "distinct (keys r) \<Longrightarrow> distinct (keys (register r nc))"
  by (simp add: register_def keys_def distinct_update)

lemma distinct_foldl_register:
  "distinct (keys r) \<Longrightarrow> distinct (keys (foldl register r regs))"
  by (induction regs arbitrary: r) (simp_all add: distinct_register)

lemma map_of_register:
  "map_of (register r nc) k = (if k = fst nc then Some (snd nc) else map_of r k)"
  by (simp add: register_def update_conv')

lemma map_of_foldl_register:
  "map_of (foldl register r regs) k =
     (case map_of (rev regs) k of Some c \<Rightarrow> Some c | None \<Rightarrow> map_of r k)"
proof (induction regs rule: rev_induct)
  case Nil
  show ?case by simp
next
  case (snoc nc regs)
  show ?case
    by (cases nc) (simp add: snoc.IH map_of_register)
qed

lemma set_register: "set (register r nc) \<subseteq> insert nc (set r)"
proof -
  have "set (AList.update k v al) \<subseteq> insert (k, v) (set al)"
    for k :: string and v :: py_class and al
    by (induction al) auto
  then show ?thesis by (cases nc) (simp add: register_def)
qed

lemma set_foldl_register: "set (foldl register r regs) \<subseteq> set r \<union> set regs"
proof (induction regs arbitrary: r)
  case Nil
  show ?case by simp
next
  case (Cons nc regs)
  show ?case using Cons.IH [of "register r nc"] set_register [of r nc] by auto
qed

lemma registrations_sound:
  "(n, c) \<in> set (registrations ns) \<Longrightarrow>
     reported_name c = Inr n \<and> issubclass_BaseProvider c \<and> c \<noteq> BaseProvider
     \<and> c \<in> set (selected ns)"
proof (induction ns)
  case Nil
  then show ?case by simp
next
  case (Cons a ns)
  obtain an attr where a: "a = (an, attr)" by (cases a)
  show ?case
  proof (cases attr)
    case NonType
    then show ?thesis using a Cons by simp
  next
    case (Type c')
    show ?thesis
    proof (cases "issubclass_BaseProvider c' \<and> c' \<noteq> BaseProvider")
      case False
      then show ?thesis using a Type Cons by auto
    next
      case True
      show ?thesis
      proof (cases "reported_name c'")
        case (Inl e)
        then show ?thesis using a Type True Cons.prems by simp
      next
        case (Inr n')
        then show ?thesis using a Type True Cons by auto
      qed
    qed
  qed
qed







text \<open>
  The registry at an instant of construction is \<open>registry_at\<close> of some number of
  registrations: after any number of iterations of the built-in loop, after any number
  of modules, and after any number of attributes of the next module.
\<close>

lemma registrations_take:
  "\<exists>k. registrations (take i ns) = take k (registrations ns)"
proof (induction ns arbitrary: i)
  case Nil
  show ?case by simp
next
  case (Cons a ns)
  show ?case
  proof (cases i)
    case 0
    have "registrations (take 0 (a # ns)) = take 0 (registrations (a # ns))" by simp
    then show ?thesis unfolding 0 by blast
  next
    case (Suc i')
    obtain an attr where a: "a = (an, attr)" by (cases a)
    from Cons [of i'] obtain k where k: "registrations (take i' ns) = take k (registrations ns)"
      by blast
    show ?thesis
    proof (cases attr)
      case NonType
      then show ?thesis using a Suc k by auto
    next
      case (Type c)
      show ?thesis
      proof (cases "issubclass_BaseProvider c \<and> c \<noteq> BaseProvider")
        case False
        then show ?thesis using a Suc Type k by auto
      next
        case True
        show ?thesis
        proof (cases "reported_name c")
          case (Inl e)
          then have "registrations (take i (a # ns)) = take 0 (registrations (a # ns))"
            using a Suc Type True by simp
          then show ?thesis by blast
        next
          case (Inr n)
          then have "registrations (take i (a # ns)) = take (Suc k) (registrations (a # ns))"
            using a Suc Type True k by simp
          then show ?thesis by blast
        qed
      qed
    qed
  qed
qed

lemma all_registrations_append:
  "all_registrations (ms1 @ ms2) =
     all_registrations ms1 @ (if list_ex aborts ms1 then [] else all_registrations ms2)"
  by (induction ms1) simp_all

lemma registry_at_prefix:
  "registration_sequence custom_dir = xs @ ys \<Longrightarrow>
     foldl register [] xs = registry_at custom_dir (length xs)"
  by (simp add: registry_at_def)

lemma builtin_instants:
  "load_builtin_loop (map Provider (take k builtin_providers)) [] =
     Inr (registry_at custom_dir (length (take k builtin_providers)))"
proof -
  let ?f = "\<lambda>p. (provider_name p, Provider p)"
  have "map ?f builtin_providers =
      map ?f (take k builtin_providers) @ map ?f (drop k builtin_providers)"
    by (simp flip: map_append)
  then have "registration_sequence custom_dir =
      map ?f (take k builtin_providers) @ (map ?f (drop k builtin_providers) @
        (case custom_dir of None \<Rightarrow> [] | Some ms \<Rightarrow> all_registrations ms))"
    by (simp add: registration_sequence_def)
  from registry_at_prefix [OF this]
  have "foldl register [] (map ?f (take k builtin_providers)) =
      registry_at custom_dir (length (take k builtin_providers))"
    by simp
  then show ?thesis
    by (simp only: load_builtin_loop_registry)
qed

lemma discovery_instants:
  assumes "j < length ms" "import_module (ms ! j) = Inr ns"
    and "load_builtin_providers [] = Inr r0"
    and "\<not> list_ex aborts (take j ms)"
  shows "\<exists>k. fst (fst (scan_attrs (mod_name (ms ! j)) (take i ns)
                 (fst (discover_loop (take j ms) (r0, out))))) = registry_at (Some ms) k"
proof -
  let ?f = "\<lambda>p. (provider_name p, Provider p)"
  obtain k where k: "registrations (take i ns) = take k (registrations ns)"
    using registrations_take by blast
  have r0: "r0 = foldl register [] (map ?f builtin_providers)"
    using assms(3) by (simp add: load_builtin_providers_def load_builtin_loop_registry)
  have ms: "ms = take j ms @ (ms ! j) # drop (Suc j) ms"
    using assms(1) by (simp add: id_take_nth_drop)
  have "all_registrations ms =
      all_registrations (take j ms) @ all_registrations ((ms ! j) # drop (Suc j) ms)"
    using all_registrations_append [of "take j ms" "(ms ! j) # drop (Suc j) ms"] ms assms(4)
    by simp
  then obtain rest where "all_registrations ms =
      all_registrations (take j ms) @ registrations ns @ rest"
    using assms(2) by (simp add: plugin_registrations_def)
  then have "registration_sequence (Some ms) =
      (map ?f builtin_providers @ all_registrations (take j ms) @ take k (registrations ns))
      @ (drop k (registrations ns) @ rest)"
    by (simp add: registration_sequence_def)
  from registry_at_prefix [OF this]
  have "foldl register [] (map ?f builtin_providers @ all_registrations (take j ms)
          @ take k (registrations ns)) = registry_at (Some ms)
            (length (map ?f builtin_providers @ all_registrations (take j ms)
              @ take k (registrations ns)))" .
  moreover have "fst (fst (scan_attrs (mod_name (ms ! j)) (take i ns)
                 (fst (discover_loop (take j ms) (r0, out))))) =
      foldl register [] (map ?f builtin_providers @ all_registrations (take j ms)
          @ take k (registrations ns))"
    by (simp add: scan_attrs_registry discover_loop_registry k r0)
  ultimately show ?thesis by metis
qed

lemma discovery_module_instants:
  assumes "load_builtin_providers [] = Inr r0"
  shows "\<exists>k. fst (fst (discover_loop (take j ms) (r0, out))) = registry_at (Some ms) k"
proof -
  let ?f = "\<lambda>p. (provider_name p, Provider p)"
  have r0: "r0 = foldl register [] (map ?f builtin_providers)"
    using assms by (simp add: load_builtin_providers_def load_builtin_loop_registry)
  have "all_registrations (take j ms @ drop j ms) =
      all_registrations (take j ms)
      @ (if list_ex aborts (take j ms) then [] else all_registrations (drop j ms))"
    by (rule all_registrations_append)
  then obtain rest where "all_registrations ms = all_registrations (take j ms) @ rest"
    by simp
  then have "registration_sequence (Some ms) =
      (map ?f builtin_providers @ all_registrations (take j ms)) @ rest"
    by (simp add: registration_sequence_def)
  from registry_at_prefix [OF this]
  have "foldl register [] (map ?f builtin_providers @ all_registrations (take j ms)) =
      registry_at (Some ms) (length (map ?f builtin_providers @ all_registrations (take j ms)))" .
  moreover have "fst (fst (discover_loop (take j ms) (r0, out))) =
      foldl register [] (map ?f builtin_providers @ all_registrations (take j ms))"
    by (simp add: discover_loop_registry r0)
  ultimately show ?thesis by metis
qed

section \<open>The examples, evaluated\<close>

lemmas discovery_defs =
  init_def discover_custom_providers_def load_plugin_def handle_exception_def register_attr_def
  failed_warning_def override_warning_def keys_def

lemma load_builtin_providers_eval: "load_builtin_providers [] = Inr builtin_registry"
  by (simp add: load_builtin_providers_def builtin_providers_def builtin_registry_def)

lemma init_no_custom_dir: "init None out = Inr (builtin_registry, out)"
  by (simp add: init_def load_builtin_providers_eval discover_custom_providers_def)

lemma init_shipped: "init (Some [minimax_module]) [] = Inr (shipped_registry, [])"
  by (simp add: discovery_defs load_builtin_providers_eval
        minimax_module_def minimax_namespace_def
        plain_class_def builtin_registry_def shipped_registry_def)

lemma list_providers_shipped:
  "list_providers shipped_registry =
     [''anthropic'', ''cerebras'', ''google'', ''minimax'', ''ollama'', ''openai'']"
  by code_simp

lemma init_shadow: "init (Some [shadow_openai]) [] = Inr (shadow_registry, [])"
  by (simp add: discovery_defs load_builtin_providers_eval
        shadow_openai_def custom_provider_def
        builtin_registry_def shadow_registry_def)

lemma init_mixed:
  "init (Some [vendorA_mixed, vendorB_mixed]) [] =
     Inr (mixed_registry,
          [''Warning: Custom provider '' @ [CHR 0x27] @ ''VendorX'' @ [CHR 0x27] @
           '' from vendorB.py overrides built-in provider''])"
  by (simp add: discovery_defs load_builtin_providers_eval
        vendorA_mixed_def vendorB_mixed_def
        custom_provider_def builtin_registry_def mixed_registry_def)

lemma init_vendor:
  "init (Some [vendorA, vendorB]) [] =
     Inr (vendor_registry,
          [''Warning: Custom provider '' @ [CHR 0x27] @ ''vendorx'' @ [CHR 0x27] @
           '' from vendorB.py overrides built-in provider''])"
  by (simp add: discovery_defs load_builtin_providers_eval
        vendorA_def vendorB_def
        custom_provider_def builtin_registry_def vendor_registry_def)

lemma init_strasse: "init (Some [strasse_module]) [] = Inr (strasse_registry, [])"
proof -
  have ne: "strasse \<noteq> ''ollama''" "strasse \<noteq> ''openai''" "strasse \<noteq> ''anthropic''"
      "strasse \<noteq> ''google''" "strasse \<noteq> ''cerebras''"
    by (simp_all add: strasse_def)
  show ?thesis
    by (simp add: discovery_defs load_builtin_providers_eval strasse_module_def
          custom_provider_def builtin_registry_def strasse_registry_def ne ne [symmetric])
qed

lemma list_providers_mixed:
  "list_providers mixed_registry =
     [''VendorX'', ''anthropic'', ''cerebras'', ''google'', ''ollama'', ''openai'']"
  by code_simp

section \<open>Registry construction\<close>

text \<open>
  C7. \<open>list_providers\<close> of the registry that construction returns is sorted in
  ascending order, has no duplicate and lists exactly the keys, whatever the \<open>custom\<close>
  directory holds; the same holds of the registry at every instant of construction.
  Construction does return a registry unless a plugin raises an exception that is not
  an instance of \<open>Exception\<close>.
\<close>

theorem list_providers_sorted_distinct:
  "(init custom_dir out = Inr (r, out') \<longrightarrow>
       sorted (list_providers r) \<and> distinct (list_providers r)
       \<and> set (list_providers r) = set (keys r))
   \<and> (\<not> aborting custom_dir \<longrightarrow> (\<exists>r out'. init custom_dir out = Inr (r, out')))
   \<and> sorted (list_providers (registry_at custom_dir k))
   \<and> distinct (list_providers (registry_at custom_dir k))"
proof -
  have d: "distinct (keys (foldl register [] regs))" for regs
    by (rule distinct_foldl_register) (simp add: keys_def)
  have "distinct (list_providers r)" if "init custom_dir out = Inr (r, out')"
    using init_registry [OF that] d by (simp add: list_providers_def)
  then show ?thesis
    using d init_returns [of custom_dir out]
    by (auto simp: list_providers_def registry_at_def)
qed

theorem list_providers_sorted_distinct_witness:
  "init (Some [minimax_module]) [] = Inr (shipped_registry, [])
   \<and> list_providers shipped_registry =
       [''anthropic'', ''cerebras'', ''google'', ''minimax'', ''ollama'', ''openai'']
   \<and> sorted (list_providers shipped_registry) \<and> distinct (list_providers shipped_registry)"
  using list_providers_sorted_distinct [of "Some [minimax_module]" "[]" shipped_registry "[]" 0]
  by (simp add: init_shipped list_providers_shipped)

text \<open>
  C5 at a plugin whose provider reports the name \<open>OpenAI\<close>. Registration tests
  \<open>provider_name in self._providers\<close> on the name as reported and stores it as
  reported, while the lookups lower-case: construction prints no warning, the registry
  holds the two keys \<open>openai\<close> and \<open>OpenAI\<close>, equal up to case, and no identifier makes
  \<open>get_provider\<close> return the custom class; \<open>get_provider("OpenAI")\<close> returns the
  built-in one.
\<close>

theorem shadow_openai_keys:
  "init (Some [shadow_openai]) [] = Inr (shadow_registry, [])
   \<and> keys shadow_registry =
       [''ollama'', ''openai'', ''anthropic'', ''google'', ''cerebras'', ''OpenAI'']
   \<and> lower ''OpenAI'' = lower ''openai''
   \<and> \<not> distinct (map lower (keys shadow_registry))
   \<and> map_of shadow_registry ''OpenAI'' = Some (custom_provider ''MyOpenAI'' ''OpenAI'')
   \<and> get_provider shadow_registry ''OpenAI'' = Some (Provider OpenAIProvider)
   \<and> (\<forall>n. get_provider shadow_registry n \<noteq> Some (custom_provider ''MyOpenAI'' ''OpenAI''))"
proof -
  have k: "keys shadow_registry =
      [''ollama'', ''openai'', ''anthropic'', ''google'', ''cerebras'', ''OpenAI'']"
    by (simp add: shadow_registry_def builtin_registry_def keys_def)
  have "map lower (keys shadow_registry) =
      [lower ''ollama'', ''openai'', lower ''anthropic'', lower ''google'', lower ''cerebras'',
       ''openai'']"
    by (simp add: k lower_examples)
  then have nd: "\<not> distinct (map lower (keys shadow_registry))"
    by simp
  have m: "map_of shadow_registry ''OpenAI'' = Some (custom_provider ''MyOpenAI'' ''OpenAI'')"
    by (simp add: shadow_registry_def builtin_registry_def)
  have g: "get_provider shadow_registry ''OpenAI'' = Some (Provider OpenAIProvider)"
    by (simp add: get_provider_def lower_examples shadow_registry_def builtin_registry_def)
  have u: "get_provider shadow_registry n \<noteq> Some (custom_provider ''MyOpenAI'' ''OpenAI'')" for n
    using lower_never_capital(1) [of n "''penAI''"]
    by (auto simp: get_provider_def shadow_registry_def builtin_registry_def custom_provider_def)
  show ?thesis
    using k nd m g u by (simp add: init_shadow lower_examples)
qed

theorem shadow_openai_keys_witness:
  "''openai'' \<in> set (keys shadow_registry) \<and> ''OpenAI'' \<in> set (keys shadow_registry)
   \<and> get_provider shadow_registry ''openai'' \<noteq> Some (custom_provider ''MyOpenAI'' ''OpenAI'')"
  using shadow_openai_keys by simp

text \<open>
  C1 at two plugins that both name their provider \<open>VendorX\<close>. The second registration
  collides with the first: one warning is printed, naming the provider and the module
  \<open>vendorB\<close>, and the registry maps \<open>VendorX\<close> to the later class. But registration
  stores the name as reported while the lookups lower-case: \<open>list_providers\<close> lists
  \<open>VendorX\<close>, \<open>get_provider("VendorX")\<close> is \<open>None\<close>, \<open>is_provider_available("VendorX")\<close>
  is \<open>False\<close>, and no identifier makes \<open>get_provider\<close> return the later class.
\<close>

theorem mixed_case_collision:
  "init (Some [vendorA_mixed, vendorB_mixed]) [] =
     Inr (mixed_registry,
          [''Warning: Custom provider '' @ [CHR 0x27] @ ''VendorX'' @ [CHR 0x27] @
           '' from vendorB.py overrides built-in provider''])
   \<and> map_of mixed_registry ''VendorX'' = Some (custom_provider ''ProviderB'' ''VendorX'')
   \<and> ''VendorX'' \<in> set (list_providers mixed_registry)
   \<and> get_provider mixed_registry ''VendorX'' = None
   \<and> \<not> is_provider_available mixed_registry ''VendorX''
   \<and> (\<forall>n. get_provider mixed_registry n \<noteq> Some (custom_provider ''ProviderB'' ''VendorX''))"
proof -
  have m: "map_of mixed_registry ''VendorX'' = Some (custom_provider ''ProviderB'' ''VendorX'')"
    by (simp add: mixed_registry_def builtin_registry_def)
  have g: "get_provider mixed_registry ''VendorX'' = None"
      "\<not> is_provider_available mixed_registry ''VendorX''"
    by (simp_all add: get_provider_def is_provider_available_def lower_examples
          mixed_registry_def builtin_registry_def keys_def)
  have u: "get_provider mixed_registry n \<noteq> Some (custom_provider ''ProviderB'' ''VendorX'')" for n
    using lower_never_capital(2) [of n "''endorX''"]
    by (auto simp: get_provider_def mixed_registry_def builtin_registry_def custom_provider_def)
  show ?thesis
    using m g u by (simp add: init_mixed list_providers_mixed)
qed

theorem mixed_case_collision_witness:
  "get_provider mixed_registry ''vendorx'' \<noteq> Some (custom_provider ''ProviderB'' ''VendorX'')
   \<and> get_provider mixed_registry ''VendorX'' = None"
  using mixed_case_collision by simp


section \<open>Lookup\<close>

text \<open>
  C4, as stated, fails. A plugin names its provider \<open>stra\<close>, sharp s, \<open>e\<close>, a lowercase
  name. Its upper-case form is \<open>STRASSE\<close>, which \<open>get_provider\<close> lower-cases to
  \<open>strasse\<close>, not a key: the registered class is found under the name and not under
  the upper-cased name.
\<close>

theorem upper_lookup_counterexample:
  "init (Some [strasse_module]) [] = Inr (strasse_registry, [])
   \<and> strasse \<in> set (keys strasse_registry)
   \<and> lower strasse = strasse
   \<and> upper strasse = Some ''STRASSE''
   \<and> get_provider strasse_registry strasse = Some (custom_provider ''Strasse'' strasse)
   \<and> get_provider strasse_registry ''STRASSE'' = None"
proof -
  have ne: "strasse \<noteq> ''ollama''" "strasse \<noteq> ''openai''" "strasse \<noteq> ''anthropic''"
      "strasse \<noteq> ''google''" "strasse \<noteq> ''cerebras''"
    by (simp_all add: strasse_def)
  have a: "get_provider strasse_registry strasse = Some (custom_provider ''Strasse'' strasse)"
    by (simp add: get_provider_def strasse_eval strasse_registry_def builtin_registry_def ne)
  have b: "get_provider strasse_registry ''STRASSE'' = None"
    using strasse_eval(3)
    by (simp add: get_provider_def lower_examples strasse_registry_def builtin_registry_def)
  show ?thesis
    using a b by (simp add: init_strasse strasse_eval) (simp add: strasse_registry_def keys_def)
qed

text \<open>
  C4, amended. \<open>get_provider\<close> and \<open>is_provider_available\<close> give the same answer on
  any two identifiers with the same \<open>lower()\<close>, so they agree under every change of
  case that \<open>lower()\<close> undoes; \<open>get_provider(n.upper())\<close> returns what
  \<open>get_provider(n)\<close> returns whenever \<open>n.upper().lower()\<close> is \<open>n.lower()\<close>. That is so
  for every ASCII identifier, and for every identifier of the model that has no sharp
  s and whose upper-case form the model has.
\<close>

theorem lookup_case_insensitive:
  "(lower n' = lower n \<longrightarrow>
        get_provider r n' = get_provider r n \<and>
        is_provider_available r n' = is_provider_available r n)
   \<and> (upper n = Some u \<and> CHR 0xDF \<notin> set n \<longrightarrow>
        get_provider r u = get_provider r n \<and>
        is_provider_available r u = is_provider_available r n)
   \<and> (isascii n \<longrightarrow>
        (\<exists>u. upper n = Some u \<and> get_provider r u = get_provider r n
             \<and> is_provider_available r u = is_provider_available r n))"
proof -
  have same: "get_provider r n' = get_provider r n \<and>
      is_provider_available r n' = is_provider_available r n" if "lower n' = lower n" for n'
    using that by (simp add: get_provider_def is_provider_available_def)
  have up: "get_provider r u = get_provider r n \<and>
      is_provider_available r u = is_provider_available r n"
    if "upper n = Some u" "CHR 0xDF \<notin> set n" for u
    using same [OF upper_lower [OF that(2) that(1)]] .
  have "\<exists>u. upper n = Some u \<and> get_provider r u = get_provider r n
      \<and> is_provider_available r u = is_provider_available r n" if "isascii n"
    using ascii_upper [OF that] ascii_no_sharp_s [OF that] up by blast
  then show ?thesis using same up by blast
qed

theorem lookup_case_insensitive_witness:
  "isascii ''minimax''
   \<and> upper ''minimax'' = Some ''MINIMAX''
   \<and> get_provider shipped_registry ''MINIMAX'' = Some (Provider MinimaxProvider)
   \<and> get_provider shipped_registry ''minimax'' = Some (Provider MinimaxProvider)
   \<and> lower ''MiniMax'' = lower ''minimax''
   \<and> get_provider shipped_registry ''MiniMax'' = get_provider shipped_registry ''minimax''
   \<and> is_provider_available shipped_registry ''MiniMax''"
proof -
  note t = lookup_case_insensitive
    [of "''MiniMax''" "''minimax''" shipped_registry "''MINIMAX''"]
  have s: "CHR 0xDF \<notin> set ''minimax''" by simp
  have g: "get_provider shipped_registry ''minimax'' = Some (Provider MinimaxProvider)"
      "is_provider_available shipped_registry ''minimax''"
    by (simp_all add: get_provider_def is_provider_available_def shipped_registry_def
          builtin_registry_def keys_def lower_minimax)
  have a: "get_provider shipped_registry ''MINIMAX'' = Some (Provider MinimaxProvider)"
    using t lower_minimax(3) s g(1) by simp
  have b: "get_provider shipped_registry ''MiniMax'' = get_provider shipped_registry ''minimax''"
      "is_provider_available shipped_registry ''MiniMax''"
    using t lower_minimax(1,2) g(2) by simp_all
  show ?thesis
    using a b g lower_minimax by simp
qed


section \<open>Failures during discovery\<close>



lemma load_plugin_propagates:
  "import_module m = Inl (PyBaseExc t msg) \<Longrightarrow> load_plugin m s = (s, Some (PyBaseExc t msg))"
  by (simp add: load_plugin_def handle_exception_def)



















section \<open>Keys and collisions in general\<close>

text \<open>
  What holds of the keys whatever the names: at every instant of construction each
  key is exactly the identifier that the \<open>name\<close> property of an instance of the mapped
  class returns, whatever the symbol was called in its module, and the keys are
  pairwise different; they are pairwise different up to case as well when every
  custom class that discovery registers reports a lowercase name.
\<close>

lemma registry_keys_are_names:
  "(\<forall>(n, c) \<in> set (registry_at custom_dir k). reported_name c = Inr n)
   \<and> distinct (keys (registry_at custom_dir k))
   \<and> (lowercase_names custom_dir \<longrightarrow>
        distinct (map lower (keys (registry_at custom_dir k))))"
proof -
  let ?seq = "registration_sequence custom_dir"
  let ?builtin = "map (\<lambda>p. (provider_name p, Provider p)) builtin_providers"
  have in_all: "\<exists>m. (n, c) \<in> set (plugin_registrations m)"
    if "(n, c) \<in> set (all_registrations ms)" for n c ms
    using that by (induction ms) (auto split: if_splits)
  have seq_names: "reported_name c = Inr n" if mem: "(n, c) \<in> set ?seq" for n c
  proof (cases "(n, c) \<in> set ?builtin")
    case True
    then show ?thesis by (auto simp: reported_name_def)
  next
    case False
    then obtain ms where "custom_dir = Some ms" and "(n, c) \<in> set (all_registrations ms)"
      using mem by (cases custom_dir) (auto simp: registration_sequence_def)
    then obtain m where "(n, c) \<in> set (plugin_registrations m)"
      using in_all by blast
    then show ?thesis
      using registrations_sound [of n c]
      by (cases "import_module m") (auto simp: plugin_registrations_def)
  qed
  have sub: "set (registry_at custom_dir k) \<subseteq> set ?seq"
    using set_foldl_register [of "[]" "take k ?seq"] set_take_subset [of k ?seq]
    by (auto simp: registry_at_def)
  have part2: "\<forall>(n, c) \<in> set (registry_at custom_dir k). reported_name c = Inr n"
    using sub seq_names by auto
  have part3: "distinct (keys (registry_at custom_dir k))"
    unfolding registry_at_def by (rule distinct_foldl_register) (simp add: keys_def)
  have part4: "distinct (map lower (keys (registry_at custom_dir k)))"
    if low: "lowercase_names custom_dir"
  proof -
    have seq_low: "lower n = n" if mem: "(n, c) \<in> set ?seq" for n c
    proof (cases "(n, c) \<in> set ?builtin")
      case True
      then show ?thesis by (auto simp: builtin_names_lower)
    next
      case False
      then obtain ms where "custom_dir = Some ms" and "(n, c) \<in> set (all_registrations ms)"
        using mem by (cases custom_dir) (auto simp: registration_sequence_def)
      then show ?thesis
        using low by (auto simp: lowercase_names_def list_all_iff)
    qed
    have "lower n = n" if "n \<in> set (keys (registry_at custom_dir k))" for n
      using that sub seq_low by (auto simp: keys_def)
    then have "map lower (keys (registry_at custom_dir k)) = keys (registry_at custom_dir k)"
      by (simp add: map_idI)
    then show ?thesis using part3 by simp
  qed
  show ?thesis using part2 part3 part4 by blast
qed

text \<open>
  What holds of a collision whatever the name: the loop body raises nothing, prints
  exactly one line, which names the provider and the module, and assigns the class to
  the name, leaving the set of keys as it was; \<open>get_provider\<close> on the name returns the
  class when the name is its own lower-case form.
\<close>

lemma collision_overwrites:
  assumes "issubclass_BaseProvider c" "c \<noteq> BaseProvider" "reported_name c = Inr n"
    and "n \<in> set (keys r)"
  shows "register_attr mn (Type c) (r, out) =
           Inr (register r (n, c),
                out @ [''Warning: Custom provider '' @ [CHR 0x27] @ n @ [CHR 0x27] @
                       '' from '' @ mn @ ''.py overrides built-in provider''])
       \<and> map_of (register r (n, c)) n = Some c
       \<and> set (keys (register r (n, c))) = set (keys r)
       \<and> (lower n = n \<longrightarrow> get_provider (register r (n, c)) n = Some c)"
  using assms
  by (auto simp: register_attr_unfold override_warning_def map_of_register keys_register
        get_provider_def)


section \<open>Configuration validation\<close>

lemmas builtin_validate_defs =
  ollama_validate_config_def openai_validate_config_def anthropic_validate_config_def
  google_validate_config_def cerebras_validate_config_def

text \<open>
  C8. For each of the five built-in providers, \<open>validate_config\<close> of the empty
  configuration returns \<open>(False, message)\<close> and the message begins with the name of
  the missing field, \<open>model_name\<close>; and on every configuration, in every environment,
  \<open>validate_config\<close> of a built-in provider returns a result and raises nothing.
\<close>

theorem builtin_validate_config_empty:
  assumes "p \<in> set builtin_providers"
  shows "(\<exists>msg. validate_config p env Map.empty = Inr (False, Some msg)
              \<and> take 10 msg = ''model_name'')
       \<and> (\<exists>res. validate_config p env config = Inr res)"
  using assms
  by (cases p) (auto simp add: builtin_providers_def builtin_validate_defs dict_get_def Let_def)

theorem builtin_validate_config_empty_witness:
  "OpenAIProvider \<in> set builtin_providers \<and>
   validate_config OpenAIProvider env_unset Map.empty =
     Inr (False, Some ''model_name is required for OpenAI provider'') \<and>
   (\<exists>res. validate_config OpenAIProvider env_unset config_no_group = Inr res)"
  using builtin_validate_config_empty [of OpenAIProvider env_unset config_no_group]
  by (simp add: builtin_providers_def openai_validate_config_def dict_get_def)

text \<open>
  C9, as stated, fails: \<open>MinimaxProvider.validate_config\<close> falls back to
  \<open>os.getenv("MINIMAX_GROUP_ID")\<close>, so one configuration is rejected when the variable
  is unset and accepted when it holds nineteen digits.
\<close>

theorem validate_config_env_counterexample:
  "validate_config MinimaxProvider env_unset config_no_group =
     Inr (False, Some (''MINIMAX_GROUP_ID environment variable must be set. '' @
                       ''This is your 19-digit account identifier.''))
   \<and> validate_config MinimaxProvider env_group config_no_group = Inr (True, None)"
  by (simp add: minimax_validate_config_def env_unset_def env_group_def config_no_group_def
        dict_get_def getenv_def py_or_def isdigit_def digit_char_def)

text \<open>
  C9, amended. \<open>validate_config\<close> computes its result from its arguments and writes
  nothing. For the five built-in providers the result depends on the configuration
  alone; for \<open>MinimaxProvider\<close> it depends on the configuration and on the value of the
  environment variable \<open>MINIMAX_GROUP_ID\<close>, and on nothing else of the environment.
\<close>

theorem validate_config_reads:
  assumes "p = MinimaxProvider \<longrightarrow> env ''MINIMAX_GROUP_ID'' = env' ''MINIMAX_GROUP_ID''"
  shows "validate_config p env config = validate_config p env' config"
  using assms
  by (cases p) (simp_all add: minimax_validate_config_def getenv_def)

theorem validate_config_reads_witness:
  "validate_config MinimaxProvider env_group config_no_group =
   validate_config MinimaxProvider (env_group(''HOME'' \<mapsto> ''/root'')) config_no_group"
  using validate_config_reads
    [of MinimaxProvider env_group "env_group(''HOME'' \<mapsto> ''/root'')" config_no_group]
  by (simp add: env_group_def)

text \<open>
  The group id check of \<open>MinimaxProvider.validate_config\<close> on strings: with
  \<open>model_name\<close> and \<open>api_key\<close> present, the configuration is valid exactly when the
  effective group id (the one of the configuration, else the one of the environment)
  is a string of nineteen characters that \<open>isdigit\<close> accepts, and any other non-empty
  string is reported with the nineteen-digit message.
\<close>

lemma minimax_validate_config_str_group_id:
  assumes "truthy (dict_get config ''model_name'')" "truthy (dict_get config ''api_key'')"
    and "py_or (dict_get config ''group_id'') (getenv env ''MINIMAX_GROUP_ID'') = PyStr g"
    and "g \<noteq> []"
  shows "validate_config MinimaxProvider env config =
     (if isdigit g \<and> length g = 19 then Inr (True, None)
      else Inr (False, Some (''MINIMAX_GROUP_ID should be a 19-digit number, got: '' @ g)))"
  using assms by (simp add: minimax_validate_config_def Let_def)

lemma minimax_validate_config_valid_iff:
  assumes "truthy (dict_get config ''model_name'')" "truthy (dict_get config ''api_key'')"
  shows "validate_config MinimaxProvider env config = Inr (True, None) \<longleftrightarrow>
     (\<exists>g. py_or (dict_get config ''group_id'') (getenv env ''MINIMAX_GROUP_ID'') = PyStr g
        \<and> list_all digit_char g \<and> length g = 19)"
  using assms
  by (auto simp add: minimax_validate_config_def Let_def isdigit_def split: pyval.splits)

text \<open>
  \<open>isdigit\<close> accepts the superscript digits, so a group id of nineteen superscript
  twos is valid.
\<close>

lemma minimax_validate_config_superscript_group_id:
  "validate_config MinimaxProvider env_unset config_superscript_group = Inr (True, None)"
proof -
  have "isdigit (replicate 19 (CHR 0xB2))" "length (replicate 19 (CHR 0xB2)) = 19"
    by (simp_all add: isdigit_def digit_char_def list_all_iff)
  then show ?thesis
    by (simp add: minimax_validate_config_def config_superscript_group_def dict_get_def
          getenv_def py_or_def env_unset_def)
qed

text \<open>
  C10 at a \<open>group_id\<close> given as the number \<open>12345\<close>: it is present, truthy and not
  nineteen digits; \<open>group_id.isdigit()\<close> is looked up on an \<open>int\<close>, and
  \<open>validate_config\<close> raises \<open>AttributeError\<close> instead of returning
  \<open>(False, message)\<close>.
\<close>

theorem minimax_validate_config_int_group_id:
  "validate_config MinimaxProvider env_unset config_int_group =
     Inl (PyExc ''AttributeError''
           ([CHR 0x27] @ ''int'' @ [CHR 0x27] @ '' object has no attribute '' @
            [CHR 0x27] @ ''isdigit'' @ [CHR 0x27]))"
  by (simp add: minimax_validate_config_def env_unset_def config_int_group_def
        dict_get_def getenv_def py_or_def no_attribute_def)

theorem minimax_validate_config_int_group_id_witness:
  "isl (validate_config MinimaxProvider env_unset config_int_group)"
  using minimax_validate_config_int_group_id by simp

section \<open>Unknown identifiers\<close>

text \<open>
  C6. An identifier is registered when its lower-cased form, under which all three
  queries look it up, is a key. For an identifier that is not, \<open>get_provider\<close> and
  \<open>get_provider_info\<close> return \<open>None\<close> and \<open>is_provider_available\<close> returns \<open>False\<close>;
  none of them raises.
\<close>

theorem unknown_identifier_not_found:
  assumes "lower n \<notin> set (keys r)"
  shows "get_provider r n = None \<and> get_provider_info r n = Inr None
       \<and> \<not> is_provider_available r n"
proof -
  have "map_of r (lower n) = None"
    using assms by (simp add: keys_def map_of_eq_None_iff)
  then show ?thesis
    using assms by (simp add: get_provider_def get_provider_info_def is_provider_available_def)
qed

theorem unknown_identifier_not_found_witness:
  "lower ''nonexistent'' \<notin> set (keys shipped_registry)
   \<and> get_provider shipped_registry ''nonexistent'' = None
   \<and> get_provider_info shipped_registry ''nonexistent'' = Inr None
   \<and> \<not> is_provider_available shipped_registry ''nonexistent''"
  using unknown_identifier_not_found [of "''nonexistent''" shipped_registry]
  by (simp add: shipped_registry_def builtin_registry_def keys_def lower_nonexistent)

end
